theory Spec2Isabelle
  imports Main "HOL-Library.Sublist" "HOL-Library.Multiset"
begin

section \<open>Camera actions panel: icon lookup, trigger coordination, presentation\<close>

text \<open>
  A shallow embedding of \<^verbatim>\<open>web/src/components/dynamic/ActionIconMap.ts\<close> and
  \<^verbatim>\<open>web/src/components/dynamic/CameraActions.tsx\<close>. Console output, toasts, the
  HTTP request and writes to the React state cell are recorded as an ordered list of
  effects, so that "emits exactly one diagnostic" or "the state is cleared last" are
  statements about that list.
\<close>

subsection \<open>Effects\<close>

text \<open>The second argument of \<^verbatim>\<open>toast.success\<close> / \<^verbatim>\<open>toast.error\<close>.\<close>

record toast_options =
  position :: string
  duration :: nat

text \<open>
  What the \<^verbatim>\<open>catch\<close> clause of \<^verbatim>\<open>executeAction\<close> can receive: the rejection of
  \<^verbatim>\<open>axios.post\<close> (network failure, non-2xx status), or the \<^verbatim>\<open>TypeError\<close> raised by
  reading \<^verbatim>\<open>.success\<close> of a \<^verbatim>\<open>null\<close>/\<^verbatim>\<open>undefined\<close> response body.
\<close>

datatype js_error = AxiosError string | TypeError

datatype effect =
    ConsoleWarn string
  | ConsoleError string js_error
  | ToastSuccess string toast_options
  | ToastError string toast_options
  | AxiosPost string
  | SetExecutingAction "string option"

subsection \<open>ActionIconMap.ts\<close>

text \<open>
  \<^verbatim>\<open>IconType\<close> values are identified by the name they are imported under
  (\<open>Component\<close>). An object literal also inherits the properties of
  \<^verbatim>\<open>Object.prototype\<close>, and a property read \<^verbatim>\<open>ICON_MAP[iconName]\<close> walks the
  prototype chain, so the lookup can also yield one of those inherited values
  (\<open>ObjectPrototypeProperty\<close>), which is not an icon component.
\<close>

datatype IconType = Component string | ObjectPrototypeProperty string

definition FaPlay :: IconType where
  "FaPlay = Component ''FaPlay''"

text \<open>The keys of the object literal \<^verbatim>\<open>ICON_MAP\<close>, in source order.\<close>

definition ICON_MAP_fa :: "string list" where
  "ICON_MAP_fa = [
    ''FaLightbulb'', ''FaBell'', ''FaBullhorn'', ''FaLock'', ''FaUnlock'', ''FaPlay'',
    ''FaPause'', ''FaStop'', ''FaPowerOff'', ''FaHome'', ''FaCar'', ''FaCamera'',
    ''FaVolumeUp'', ''FaVolumeMute'', ''FaVideo'', ''FaVideoSlash'', ''FaBolt'',
    ''FaShieldAlt'', ''FaEye'', ''FaEyeSlash'', ''FaToggleOn'', ''FaToggleOff'',
    ''FaWifi'', ''FaTimes'', ''FaRecordVinyl'', ''FaMicrophone'', ''FaMicrophoneSlash'',
    ''FaPhoneVolume'', ''FaClock'', ''FaExclamationTriangle'', ''FaCheckCircle'',
    ''FaTimesCircle'', ''FaArrowUp'', ''FaArrowDown'', ''FaArrowLeft'', ''FaArrowRight'',
    ''FaExpand'', ''FaCompress'', ''FaSearchPlus'', ''FaSearchMinus'', ''FaCog'',
    ''FaTrash'', ''FaEdit'', ''FaSave'', ''FaRedo'', ''FaSync'', ''FaDownload'',
    ''FaUpload'']"

definition ICON_MAP_md :: "string list" where
  "ICON_MAP_md = [
    ''MdLightMode'', ''MdDarkMode'', ''MdNotifications'', ''MdNotificationsOff'',
    ''MdSecurity'', ''MdLock'', ''MdLockOpen'', ''MdAlarm'', ''MdAlarmOff'',
    ''MdVolumeUp'', ''MdVolumeOff'', ''MdPlayArrow'', ''MdPause'', ''MdStop'',
    ''MdPowerSettingsNew'', ''MdHome'', ''MdDirectionsCar'', ''MdCamera'', ''MdCameraAlt'',
    ''MdFlashOn'', ''MdFlashOff'', ''MdVisibility'', ''MdVisibilityOff'', ''MdWifi'',
    ''MdWifiOff'', ''MdMic'', ''MdMicOff'', ''MdPhone'', ''MdPhoneDisabled'',
    ''MdWarning'', ''MdCheckCircle'', ''MdCancel'', ''MdKeyboardArrowUp'',
    ''MdKeyboardArrowDown'', ''MdKeyboardArrowLeft'', ''MdKeyboardArrowRight'',
    ''MdFullscreen'', ''MdFullscreenExit'', ''MdZoomIn'', ''MdZoomOut'', ''MdSettings'',
    ''MdDelete'', ''MdEdit'', ''MdSave'', ''MdRefresh'', ''MdSync'', ''MdDownload'',
    ''MdUpload'']"

definition ICON_MAP_lu :: "string list" where
  "ICON_MAP_lu = [
    ''LuLightbulb'', ''LuBell'', ''LuMegaphone'', ''LuLock'', ''LuLockOpen'', ''LuPlay'',
    ''LuPause'', ''LuSquare'', ''LuPower'', ''LuHouse'', ''LuCar'', ''LuCamera'',
    ''LuVolumeX'', ''LuVolume2'', ''LuVideo'', ''LuVideoOff'', ''LuZap'', ''LuShield'',
    ''LuEye'', ''LuEyeOff'', ''LuToggleLeft'', ''LuToggleRight'', ''LuWifi'',
    ''LuWifiOff'', ''LuMic'', ''LuMicOff'', ''LuPhone'', ''LuPhoneOff'', ''LuClock'',
    ''LuTriangleAlert'', ''LuCircleCheck'', ''LuCircleX'', ''LuArrowUp'', ''LuArrowDown'',
    ''LuArrowLeft'', ''LuArrowRight'', ''LuExpand'', ''LuShrink'', ''LuZoomIn'',
    ''LuZoomOut'', ''LuSettings'', ''LuTrash'', ''LuPencil'', ''LuSave'', ''LuRefreshCw'',
    ''LuDownload'', ''LuUpload'']"

definition ICON_MAP_keys :: "string list" where
  "ICON_MAP_keys = ICON_MAP_fa @ ICON_MAP_md @ ICON_MAP_lu"

text \<open>
  The literal uses shorthand properties only (\<^verbatim>\<open>{ FaLightbulb, FaBell, ... }\<close>): each
  key is bound to the imported component of the same name.
\<close>

definition ICON_MAP :: "(string \<times> IconType) list" where
  "ICON_MAP = map (\<lambda>n. (n, Component n)) ICON_MAP_keys"

text \<open>
  The properties every object literal inherits from \<^verbatim>\<open>Object.prototype\<close> (ECMAScript,
  including the Annex B accessors). Each of them is a function or an object, hence truthy.
\<close>

definition Object_prototype_keys :: "string list" where
  "Object_prototype_keys = [
    ''constructor'', ''__defineGetter__'', ''__defineSetter__'', ''hasOwnProperty'',
    ''__lookupGetter__'', ''__lookupSetter__'', ''isPrototypeOf'', ''propertyIsEnumerable'',
    ''toString'', ''valueOf'', ''__proto__'', ''toLocaleString'']"

definition Object_prototype :: "(string \<times> IconType) list" where
  "Object_prototype = map (\<lambda>n. (n, ObjectPrototypeProperty n)) Object_prototype_keys"

text \<open>
  \<^verbatim>\<open>ICON_MAP[iconName]\<close>: an own property first, then the prototype; \<open>None\<close> is
  \<^verbatim>\<open>undefined\<close>.
\<close>

definition ICON_MAP_get :: "string \<Rightarrow> IconType option" where
  "ICON_MAP_get iconName =
     (case map_of ICON_MAP iconName of
        Some c \<Rightarrow> Some c
      | None \<Rightarrow> map_of Object_prototype iconName)"

text \<open>
  \<^verbatim>\<open>getActionIcon(iconName?: string)\<close>. The argument \<open>None\<close> is \<^verbatim>\<open>undefined\<close>;
  \<^verbatim>\<open>!iconName\<close> holds for \<^verbatim>\<open>undefined\<close> and for the empty string. Every value the
  lookup can yield is truthy, so \<^verbatim>\<open>if (IconComponent)\<close> tests that the lookup found
  something. The result is the returned value and the console output.
\<close>

definition getActionIcon :: "string option \<Rightarrow> IconType \<times> effect list" where
  \<open>getActionIcon iconName =
     (case iconName of
        None \<Rightarrow> (FaPlay, [])
      | Some n \<Rightarrow>
          if n = [] then (FaPlay, [])
          else (case ICON_MAP_get n of
                  Some IconComponent \<Rightarrow> (IconComponent, [])
                | None \<Rightarrow>
                    (FaPlay,
                     [ConsoleWarn (''Icon "'' @ n @ ''" not found in ICON_MAP. Using FaPlay as fallback.'')])))\<close>

subsection \<open>Configuration and response types\<close>

text \<open>
  Modelled from the spec: the type declarations of \<^verbatim>\<open>@/types/frigateConfig\<close>
  (\<^verbatim>\<open>CameraConfig\<close> and the actions it holds). An action has a \<open>name\<close>, an optional
  \<open>icon\<close> key and a boolean \<open>standalone\<close> flag; a camera has a name and an optional
  action configuration with an optional action list (the component reads it as
  \<^verbatim>\<open>camera.actions?.actions\<close>). The camera's fields \<^verbatim>\<open>name\<close> and \<^verbatim>\<open>actions\<close> are
  \<open>camera_name\<close> and \<open>camera_actions\<close> here.
\<close>

record Action =
  name :: string
  icon :: "string option"
  standalone :: bool

record CameraActionsConfig =
  actions :: "Action list option"

record CameraConfig =
  camera_name :: string
  camera_actions :: "CameraActionsConfig option"

record CameraActionsProps =
  camera :: CameraConfig
  fullscreen :: bool
  cameraEnabled :: bool

text \<open>
  Modelled from the spec: the shape of the trigger response's body, a boolean success
  indicator and an optional message string (\<^verbatim>\<open>response.data\<close> is untyped in the
  component). \<open>success\<close> is what \<^verbatim>\<open>if (response.data.success)\<close> tests; \<open>message\<close> is
  \<open>None\<close> when the body has no message.
\<close>

record response_data =
  success :: bool
  message :: "string option"

text \<open>
  How \<^verbatim>\<open>await axios.post(...)\<close> ends: the promise resolves with a response whose
  \<^verbatim>\<open>data\<close> is the given body (\<open>None\<close>: \<^verbatim>\<open>null\<close> or \<^verbatim>\<open>undefined\<close>), or it rejects.
\<close>

datatype post_outcome = Resolves "response_data option" | Rejects string

subsection \<open>CameraActions.tsx: executeAction\<close>

text \<open>The \<^verbatim>\<open>catch (error)\<close> clause.\<close>

definition executeAction_catch :: "string \<Rightarrow> js_error \<Rightarrow> effect list" where
  \<open>executeAction_catch actionName error =
     [ConsoleError ''Error executing camera action:'' error,
      ToastError (''Failed to execute action "'' @ actionName @ ''"'')
        \<lparr>position = ''top-center'', duration = 5000\<rparr>]\<close>

text \<open>
  \<^verbatim>\<open>executeAction(actionName)\<close>, given how the request ends. \<^verbatim>\<open>a || b\<close> yields \<^verbatim>\<open>b\<close>
  when \<^verbatim>\<open>a\<close> is \<^verbatim>\<open>undefined\<close> or the empty string. The \<^verbatim>\<open>finally\<close> clause runs last on
  every path.
\<close>

definition executeAction :: "CameraConfig \<Rightarrow> string \<Rightarrow> post_outcome \<Rightarrow> effect list" where
  \<open>executeAction cam actionName outcome =
     [SetExecutingAction (Some actionName),
      AxiosPost (''camera/'' @ camera_name cam @ ''/actions/'' @ actionName @ ''/trigger'')]
     @ (case outcome of
          Resolves (Some data) \<Rightarrow>
            if success data then
              [ToastSuccess (''Action "'' @ actionName @ ''" executed successfully'')
                 \<lparr>position = ''top-center'', duration = 3000\<rparr>]
            else
              [ToastError
                 (case message data of
                    Some m \<Rightarrow> if m \<noteq> [] then m else ''Failed to execute action "'' @ actionName @ ''"''
                  | None \<Rightarrow> ''Failed to execute action "'' @ actionName @ ''"'')
                 \<lparr>position = ''top-center'', duration = 5000\<rparr>]
        | Resolves None \<Rightarrow> executeAction_catch actionName TypeError
        | Rejects e \<Rightarrow> executeAction_catch actionName (AxiosError e))
     @ [SetExecutingAction None]\<close>

text \<open>
  The values the state cell \<^verbatim>\<open>executingAction\<close> takes while a list of effects runs:
  the value before, then the value after each \<^verbatim>\<open>setExecutingAction\<close>.
\<close>

fun executingAction_history :: "string option \<Rightarrow> effect list \<Rightarrow> string option list" where
  "executingAction_history s [] = [s]"
| "executingAction_history s (SetExecutingAction v # es) = s # executingAction_history v es"
| "executingAction_history s (_ # es) = executingAction_history s es"

fun is_toast :: "effect \<Rightarrow> bool" where
  "is_toast (ToastSuccess _ _) = True"
| "is_toast (ToastError _ _) = True"
| "is_toast _ = False"

fun is_diagnostic :: "effect \<Rightarrow> bool" where
  "is_diagnostic (ConsoleWarn _) = True"
| "is_diagnostic (ConsoleError _ _) = True"
| "is_diagnostic _ = False"

fun is_request :: "effect \<Rightarrow> bool" where
  "is_request (AxiosPost _) = True"
| "is_request _ = False"

subsection \<open>CameraActions.tsx: the rendered elements\<close>

text \<open>
  The props each element is created with. \<open>className\<close> holds the arguments handed to
  \<^verbatim>\<open>cn\<close> (\<open>None\<close> for a \<^verbatim>\<open>false\<close> argument of \<^verbatim>\<open>cond && "..."\<close>); \<^verbatim>\<open>cn\<close> only builds
  the CSS class string and is left uninterpreted. A handler is recorded as the call
  of \<^verbatim>\<open>executeAction\<close> it makes when it runs: \<open>Some n\<close> for \<^verbatim>\<open>executeAction(n)\<close>, \<open>None\<close>
  when it returns without calling.
\<close>

record toggle_props =
  className :: "string option list"
  variant :: string
  Icon :: IconType
  isActive :: bool
  title :: string
  onClick :: "string option"
  disabled :: bool

record menu_item_props =
  item_key :: string
  item_className :: "string option list"
  item_disabled :: bool
  onSelect :: "string option"
  item_icon :: IconType
  item_label :: string

record dropdown_menu_props =
  menu_key :: string
  trigger_className :: "string option list"
  trigger_icon :: IconType
  menu_items :: "menu_item_props list"

datatype element = CameraFeatureToggle toggle_props | DropdownMenu dropdown_menu_props

text \<open>What the component returns: \<^verbatim>\<open>null\<close>, one element, or an array of elements.\<close>

datatype rendered = Null | Single element | Many "element list"

definition standaloneActions :: "Action list \<Rightarrow> Action list" where
  "standaloneActions acts = filter (\<lambda>action. standalone action) acts"

definition dropdownActions :: "Action list \<Rightarrow> Action list" where
  "dropdownActions acts = filter (\<lambda>action. \<not> standalone action) acts"

text \<open>
  \<^verbatim>\<open>xs.map(f)\<close> for a callback that also writes to the console: the results in order,
  and the console output of the calls in order.
\<close>

definition map_logged :: "('a \<Rightarrow> 'b \<times> effect list) \<Rightarrow> 'a list \<Rightarrow> 'b list \<times> effect list" where
  "map_logged f xs = (map (\<lambda>x. fst (f x)) xs, concat (map (\<lambda>x. snd (f x)) xs))"

text \<open>The callback of \<^verbatim>\<open>dropdownActions.map\<close>: one \<^verbatim>\<open>DropdownMenuItem\<close>.\<close>

definition dropdown_item ::
  "bool \<Rightarrow> string option \<Rightarrow> Action \<Rightarrow> menu_item_props \<times> effect list" where
  "dropdown_item cameraEnabled' executingAction action =
     (let isExecuting = (executingAction = Some (name action));
          r = getActionIcon (icon action)
      in (\<lparr>item_key = name action,
           item_className =
             [Some ''cursor-pointer flex items-center gap-2'',
              if isExecuting then Some ''animate-pulse'' else None,
              if \<not> cameraEnabled' then Some ''opacity-50 cursor-not-allowed'' else None],
           item_disabled = (\<not> cameraEnabled' \<or> isExecuting),
           onSelect = (if cameraEnabled' \<and> \<not> isExecuting then Some (name action) else None),
           item_icon = fst r,
           item_label = (if isExecuting then ''Executing '' @ name action @ ''...'' else name action)\<rparr>,
          snd r))"

definition renderDropdownMenu ::
  "CameraActionsProps \<Rightarrow> string option \<Rightarrow> Action list \<Rightarrow> element option \<times> effect list" where
  "renderDropdownMenu props executingAction dropdownActions' =
     (if length dropdownActions' = 0 then (None, [])
      else
        (let r = map_logged (dropdown_item (cameraEnabled props) executingAction) dropdownActions'
         in (Some (DropdownMenu
               \<lparr>menu_key = ''dropdown-menu'',
                trigger_className =
                  [Some ''flex flex-col items-center justify-center rounded-lg bg-secondary p-2 text-secondary-foreground md:p-0'',
                   if fullscreen props
                   then Some ''rounded-full bg-gradient-to-br from-gray-400 to-gray-500 bg-gray-500''
                   else None],
                trigger_icon = FaPlay,
                menu_items = fst r\<rparr>),
             snd r)))"

text \<open>The callback of \<^verbatim>\<open>standaloneActions.map\<close>: one \<^verbatim>\<open>CameraFeatureToggle\<close>.\<close>

definition standalone_toggle ::
  "CameraActionsProps \<Rightarrow> string option \<Rightarrow> Action \<Rightarrow> element \<times> effect list" where
  "standalone_toggle props executingAction action =
     (let isExecuting = (executingAction = Some (name action));
          r = getActionIcon (icon action)
      in (CameraFeatureToggle
            \<lparr>className = [Some ''p-2 md:p-0'', if isExecuting then Some ''animate-pulse'' else None],
             variant = (if fullscreen props then ''overlay'' else ''primary''),
             Icon = fst r,
             isActive = isExecuting,
             title = (if isExecuting then ''Executing '' @ name action @ ''...'' else name action),
             onClick = Some (name action),
             disabled = (\<not> cameraEnabled props \<or> isExecuting)\<rparr>,
          snd r))"

text \<open>
  \<^verbatim>\<open>.filter(Boolean)\<close> on an array of elements (\<open>Some\<close>) and \<^verbatim>\<open>null\<close>s (\<open>None\<close>): an
  element is truthy.
\<close>

fun filter_Boolean :: "'a option list \<Rightarrow> 'a list" where
  "filter_Boolean [] = []"
| "filter_Boolean (None # xs) = filter_Boolean xs"
| "filter_Boolean (Some x # xs) = x # filter_Boolean xs"

text \<open>
  The array \<^verbatim>\<open>components\<close>: the spread of the mapped standalone actions is evaluated
  first, then \<^verbatim>\<open>renderDropdownMenu()\<close>.
\<close>

definition components ::
  "CameraActionsProps \<Rightarrow> string option \<Rightarrow> Action list \<Rightarrow> element list \<times> effect list" where
  "components props executingAction acts =
     (let toggles = map_logged (standalone_toggle props executingAction) (standaloneActions acts);
          menu = renderDropdownMenu props executingAction (dropdownActions acts)
      in (filter_Boolean (map Some (fst toggles) @ [fst menu]), snd toggles @ snd menu))"

text \<open>
  The component function, for the current value of the state cell \<^verbatim>\<open>executingAction\<close>:
  what it returns and what it writes to the console while rendering.
\<close>

definition CameraActions :: "CameraActionsProps \<Rightarrow> string option \<Rightarrow> rendered \<times> effect list" where
  "CameraActions props executingAction =
     (case camera_actions (camera props) of
        None \<Rightarrow> (Null, [])
      | Some cfg \<Rightarrow>
          (case actions cfg of
             None \<Rightarrow> (Null, [])
           | Some acts \<Rightarrow>
               if length acts = 0 then (Null, [])
               else
                 (let cs = components props executingAction acts
                  in if length (fst cs) = 1 then (Single (fst cs ! 0), snd cs)
                     else (Many (fst cs), snd cs))))"

subsection \<open>Reading a result\<close>

text \<open>The elements of a result as a list, and the action list of a camera (empty when absent).\<close>

fun elements_of :: "rendered \<Rightarrow> element list" where
  "elements_of Null = []"
| "elements_of (Single e) = [e]"
| "elements_of (Many es) = es"

definition configured_actions :: "CameraConfig \<Rightarrow> Action list" where
  "configured_actions cam =
     (case camera_actions cam of
        None \<Rightarrow> []
      | Some cfg \<Rightarrow> (case actions cfg of None \<Rightarrow> [] | Some acts \<Rightarrow> acts))"

fun toggles_of :: "element list \<Rightarrow> toggle_props list" where
  "toggles_of [] = []"
| "toggles_of (CameraFeatureToggle p # es) = p # toggles_of es"
| "toggles_of (DropdownMenu _ # es) = toggles_of es"

fun menus_of :: "element list \<Rightarrow> dropdown_menu_props list" where
  "menus_of [] = []"
| "menus_of (CameraFeatureToggle _ # es) = menus_of es"
| "menus_of (DropdownMenu m # es) = m # menus_of es"

section \<open>The icon resolver\<close>

lemma map_of_tagged:
  "map_of (map (\<lambda>n. (n, f n)) xs) k = (if k \<in> set xs then Some (f k) else None)"
  by (induction xs) auto

lemma map_of_ICON_MAP:
  "map_of ICON_MAP n = (if n \<in> set ICON_MAP_keys then Some (Component n) else None)"
  by (simp add: ICON_MAP_def map_of_tagged)

lemma ICON_MAP_get_cases:
  "ICON_MAP_get n =
     (if n \<in> set ICON_MAP_keys then Some (Component n)
      else if n \<in> set Object_prototype_keys then Some (ObjectPrototypeProperty n)
      else None)"
  by (simp add: ICON_MAP_get_def ICON_MAP_def Object_prototype_def map_of_tagged)

lemma empty_not_ICON_MAP_key: "[] \<notin> set ICON_MAP_keys"
  by (simp add: ICON_MAP_keys_def ICON_MAP_fa_def ICON_MAP_md_def ICON_MAP_lu_def)

lemma empty_not_Object_prototype_key: "[] \<notin> set Object_prototype_keys"
  by (simp add: Object_prototype_keys_def)

lemma LuCamera_key: "''LuCamera'' \<in> set ICON_MAP_keys"
  by (simp add: ICON_MAP_keys_def ICON_MAP_fa_def ICON_MAP_md_def ICON_MAP_lu_def)

lemma FaSiren_not_key:
  "''FaSiren'' \<notin> set ICON_MAP_keys" "''FaSiren'' \<notin> set Object_prototype_keys"
  by (simp_all add: ICON_MAP_keys_def ICON_MAP_fa_def ICON_MAP_md_def ICON_MAP_lu_def
      Object_prototype_keys_def)

text \<open>
  A name that is no key of the literal but names a property of \<^verbatim>\<open>Object.prototype\<close>
  is found by the property read: the function returns the inherited value, which is
  neither the mapped component of a key nor the \<^verbatim>\<open>FaPlay\<close> fallback its doc comment
  promises, and it warns about nothing.
\<close>

lemma getActionIcon_inherited_property:
  "map_of ICON_MAP ''constructor'' = None
   \<and> getActionIcon (Some ''constructor'') = (ObjectPrototypeProperty ''constructor'', [])"
  by (simp add: getActionIcon_def ICON_MAP_get_cases map_of_ICON_MAP Object_prototype_keys_def
      ICON_MAP_keys_def ICON_MAP_fa_def ICON_MAP_md_def ICON_MAP_lu_def)

text \<open>
  C4, as stated, fails: the empty string is a name that is present and is not a key of
  the table, yet resolving it emits no diagnostic at all (the claim asks for exactly
  one).
\<close>

theorem getActionIcon_empty_name_no_diagnostic:
  "map_of ICON_MAP '''' = None \<and> length (snd (getActionIcon (Some ''''))) \<noteq> 1"
  by (simp add: getActionIcon_def map_of_ICON_MAP empty_not_ICON_MAP_key)

text \<open>
  C4 (amended). Resolving an absent name or the empty string returns the default
  renderer \<^verbatim>\<open>FaPlay\<close> and emits nothing. Resolving a key of the table returns the
  renderer mapped to it and emits nothing. Resolving a non-empty name that is neither a
  key of the table nor the name of a property inherited from \<^verbatim>\<open>Object.prototype\<close>
  emits exactly one diagnostic, the warning naming the icon, and returns the same
  default renderer as an absent name. (Names of inherited properties are left out: see
  \<open>getActionIcon_inherited_property\<close>.)
\<close>

theorem getActionIcon_resolve:
  \<open>getActionIcon None = (FaPlay, [])
   \<and> getActionIcon (Some '''') = (FaPlay, [])
   \<and> (map_of ICON_MAP k = Some c \<longrightarrow> getActionIcon (Some k) = (c, []))
   \<and> (n \<noteq> '''' \<and> map_of ICON_MAP n = None \<and> n \<notin> set Object_prototype_keys \<longrightarrow>
        getActionIcon (Some n) =
          (fst (getActionIcon None),
           [ConsoleWarn (''Icon "'' @ n @ ''" not found in ICON_MAP. Using FaPlay as fallback.'')]))\<close>
proof -
  have absent: "getActionIcon None = (FaPlay, [])"
    by (simp add: getActionIcon_def)
  have empty: "getActionIcon (Some '''') = (FaPlay, [])"
    by (simp add: getActionIcon_def)
  have found: "getActionIcon (Some k) = (c, [])" if "map_of ICON_MAP k = Some c"
  proof -
    from that have "k \<in> set ICON_MAP_keys" and "c = Component k"
      by (auto simp: map_of_ICON_MAP split: if_splits)
    moreover from this have "k \<noteq> []"
      using empty_not_ICON_MAP_key by auto
    ultimately show ?thesis
      by (simp add: getActionIcon_def ICON_MAP_get_cases)
  qed
  have missing:
    \<open>getActionIcon (Some n) =
       (fst (getActionIcon None),
        [ConsoleWarn (''Icon "'' @ n @ ''" not found in ICON_MAP. Using FaPlay as fallback.'')])\<close>
    if "n \<noteq> ''''" "map_of ICON_MAP n = None" "n \<notin> set Object_prototype_keys"
  proof -
    from that(2) have "n \<notin> set ICON_MAP_keys"
      by (simp add: map_of_ICON_MAP split: if_splits)
    with that(1,3) show ?thesis
      by (simp add: getActionIcon_def ICON_MAP_get_cases)
  qed
  from absent empty found missing show ?thesis by blast
qed

text \<open>
  The amended C4 at a key of the table (\<^verbatim>\<open>LuCamera\<close>) and at a name the table lacks
  (\<^verbatim>\<open>FaSiren\<close>, which the source's own \<^verbatim>\<open>ICON_CATEGORIES\<close> lists).
\<close>

theorem getActionIcon_resolve_witness:
  \<open>getActionIcon (Some ''LuCamera'') = (Component ''LuCamera'', [])
   \<and> getActionIcon (Some ''FaSiren'') =
       (FaPlay, [ConsoleWarn ''Icon "FaSiren" not found in ICON_MAP. Using FaPlay as fallback.''])\<close>
proof -
  have h1: "map_of ICON_MAP ''LuCamera'' = Some (Component ''LuCamera'')"
    by (simp add: map_of_ICON_MAP LuCamera_key)
  have h2: "''FaSiren'' \<noteq> '''' \<and> map_of ICON_MAP ''FaSiren'' = None
      \<and> ''FaSiren'' \<notin> set Object_prototype_keys"
    by (simp add: map_of_ICON_MAP FaSiren_not_key)
  from getActionIcon_resolve [of "''LuCamera''" "Component ''LuCamera''" "''FaSiren''"] h1 h2
  show ?thesis by simp
qed

text \<open>
  C9. Resolving the empty string gives what resolving an absent name gives: the default
  renderer and no diagnostic, although the lookup has nothing under the empty string.
\<close>

theorem getActionIcon_empty_string:
  "getActionIcon (Some '''') = getActionIcon None
   \<and> getActionIcon (Some '''') = (FaPlay, [])
   \<and> ICON_MAP_get '''' = None"
  by (simp add: getActionIcon_def ICON_MAP_get_cases empty_not_ICON_MAP_key
      empty_not_Object_prototype_key)

section \<open>Triggering an action\<close>

lemma executeAction_state_writes:
  "executingAction_history s (executeAction cam actionName outcome) = [s, Some actionName, None]"
proof (cases outcome)
  case (Resolves body)
  then show ?thesis
    by (cases body) (simp_all add: executeAction_def executeAction_catch_def)
next
  case (Rejects e)
  then show ?thesis
    by (simp add: executeAction_def executeAction_catch_def)
qed

text \<open>
  C1. However the request ends (a success response, a failure response, a body that
  cannot be read, a rejected request), one invocation writes the state cell exactly
  twice: first the action's name, last \<^verbatim>\<open>null\<close>. Started from idle the cell goes
  idle, the name, idle; started from any value it ends idle. The first effect of the
  invocation is the write of the name and the last one is the write of \<^verbatim>\<open>null\<close>.
\<close>

theorem executeAction_clears_state:
  "executingAction_history None (executeAction cam actionName outcome) = [None, Some actionName, None]
   \<and> executingAction_history s (executeAction cam actionName outcome) = [s, Some actionName, None]
   \<and> last (executingAction_history s (executeAction cam actionName outcome)) = None
   \<and> hd (executeAction cam actionName outcome) = SetExecutingAction (Some actionName)
   \<and> last (executeAction cam actionName outcome) = SetExecutingAction None"
  by (simp add: executeAction_state_writes) (simp add: executeAction_def)

text \<open>
  C2, as stated, fails: triggering the configured action \<^verbatim>\<open>A\<close> of a camera, for the
  failure response \<^verbatim>\<open>{success: false, message: ""}\<close> the message is present, yet the
  notification carries the fallback text and not the server's (empty) message.
\<close>

theorem executeAction_empty_message_not_shown:
  \<open>filter is_toast
     (executeAction \<lparr>camera_name = ''front'',
         camera_actions = Some \<lparr>actions = Some [\<lparr>name = ''A'', icon = None, standalone = True\<rparr>]\<rparr>\<rparr>
        ''A''
        (Resolves (Some \<lparr>success = False, message = Some ''''\<rparr>)))
   = [ToastError ''Failed to execute action "A"'' \<lparr>position = ''top-center'', duration = 5000\<rparr>]
   \<and> filter is_toast
     (executeAction \<lparr>camera_name = ''front'',
         camera_actions = Some \<lparr>actions = Some [\<lparr>name = ''A'', icon = None, standalone = True\<rparr>]\<rparr>\<rparr>
        ''A''
        (Resolves (Some \<lparr>success = False, message = Some ''''\<rparr>)))
   \<noteq> [ToastError '''' \<lparr>position = ''top-center'', duration = 5000\<rparr>]\<close>
  by (simp add: executeAction_def)

text \<open>
  C2 (amended). For every camera and action name \<open>N\<close>, one invocation issues one request
  to \<^verbatim>\<open>camera/<camera>/actions/N/trigger\<close> and emits exactly one notification:
  \<^item> on a success response, a success notification \<^verbatim>\<open>Action "N" executed successfully\<close>,
    3000 ms;
  \<^item> on a response with \<^verbatim>\<open>success\<close> false, an error notification, 5000 ms, whose text is
    the server's message when that is present and non-empty (\<open>c # m\<close>) and the literal
    \<^verbatim>\<open>Failed to execute action "N"\<close> when the message is the empty string or absent;
  \<^item> on a rejected request or an unreadable body, an error notification with the same
    literal, 5000 ms, and one diagnostic recording the error.
  A response whose body can be read leaves no diagnostic.
\<close>

theorem executeAction_notifications:
  \<open>filter is_toast (executeAction cam N (Resolves (Some \<lparr>success = True, message = msg\<rparr>)))
     = [ToastSuccess (''Action "'' @ N @ ''" executed successfully'')
          \<lparr>position = ''top-center'', duration = 3000\<rparr>]
   \<and> filter is_toast
       (executeAction cam N (Resolves (Some \<lparr>success = False, message = Some (c # m)\<rparr>)))
     = [ToastError (c # m) \<lparr>position = ''top-center'', duration = 5000\<rparr>]
   \<and> filter is_toast
       (executeAction cam N (Resolves (Some \<lparr>success = False, message = Some ''''\<rparr>)))
     = [ToastError (''Failed to execute action "'' @ N @ ''"'')
          \<lparr>position = ''top-center'', duration = 5000\<rparr>]
   \<and> filter is_toast
       (executeAction cam N (Resolves (Some \<lparr>success = False, message = None\<rparr>)))
     = [ToastError (''Failed to execute action "'' @ N @ ''"'')
          \<lparr>position = ''top-center'', duration = 5000\<rparr>]
   \<and> filter is_toast (executeAction cam N (Rejects e))
     = [ToastError (''Failed to execute action "'' @ N @ ''"'')
          \<lparr>position = ''top-center'', duration = 5000\<rparr>]
   \<and> filter is_diagnostic (executeAction cam N (Rejects e))
     = [ConsoleError ''Error executing camera action:'' (AxiosError e)]
   \<and> filter is_toast (executeAction cam N (Resolves None))
     = [ToastError (''Failed to execute action "'' @ N @ ''"'')
          \<lparr>position = ''top-center'', duration = 5000\<rparr>]
   \<and> filter is_diagnostic (executeAction cam N (Resolves None))
     = [ConsoleError ''Error executing camera action:'' TypeError]
   \<and> filter is_diagnostic (executeAction cam N (Resolves (Some body))) = []
   \<and> filter is_request (executeAction cam N outcome)
     = [AxiosPost (''camera/'' @ camera_name cam @ ''/actions/'' @ N @ ''/trigger'')]\<close>
proof -
  have req: \<open>filter is_request (executeAction cam N outcome)
     = [AxiosPost (''camera/'' @ camera_name cam @ ''/actions/'' @ N @ ''/trigger'')]\<close>
  proof (cases outcome)
    case (Resolves body)
    then show ?thesis
      by (cases body) (simp_all add: executeAction_def executeAction_catch_def)
  next
    case (Rejects e)
    then show ?thesis by (simp add: executeAction_def executeAction_catch_def)
  qed
  show ?thesis
    by (simp add: req) (simp add: executeAction_def executeAction_catch_def)
qed

text \<open>
  C10. A failure response whose message is the empty string is reported with the
  fallback text \<^verbatim>\<open>Failed to execute action "N"\<close>; the notification carries the server's
  message exactly when that message is non-empty.
\<close>

theorem executeAction_message_truthy:
  \<open>filter is_toast
      (executeAction cam N (Resolves (Some \<lparr>success = False, message = Some ''''\<rparr>)))
     = [ToastError (''Failed to execute action "'' @ N @ ''"'')
          \<lparr>position = ''top-center'', duration = 5000\<rparr>]
   \<and> (filter is_toast
        (executeAction cam N (Resolves (Some \<lparr>success = False, message = Some m\<rparr>)))
       = [ToastError m \<lparr>position = ''top-center'', duration = 5000\<rparr>]) = (m \<noteq> '''')\<close>
  by (simp add: executeAction_def)

section \<open>Presenting the actions\<close>

lemma filter_Boolean_map_Some: "filter_Boolean (map Some xs @ ys) = xs @ filter_Boolean ys"
  by (induction xs) auto

lemma toggles_of_append: "toggles_of (xs @ ys) = toggles_of xs @ toggles_of ys"
  by (induction xs rule: toggles_of.induct) auto

lemma menus_of_append: "menus_of (xs @ ys) = menus_of xs @ menus_of ys"
  by (induction xs rule: menus_of.induct) auto

lemma partition_lengths:
  "length (standaloneActions acts) + length (dropdownActions acts) = length acts"
  by (simp add: standaloneActions_def dropdownActions_def sum_length_filter_compl)

lemma renderDropdownMenu_none: "fst (renderDropdownMenu props exec []) = None"
  by (simp add: renderDropdownMenu_def)

lemma renderDropdownMenu_some:
  "ds \<noteq> [] \<Longrightarrow>
     \<exists>m. fst (renderDropdownMenu props exec ds) = Some (DropdownMenu m)
       \<and> menu_items m = map (\<lambda>a. fst (dropdown_item (cameraEnabled props) exec a)) ds
       \<and> trigger_icon m = FaPlay"
  by (simp add: renderDropdownMenu_def map_logged_def Let_def)

lemma components_elements:
  "fst (components props exec acts) =
     map (\<lambda>a. fst (standalone_toggle props exec a)) (standaloneActions acts)
     @ (case fst (renderDropdownMenu props exec (dropdownActions acts)) of
          None \<Rightarrow> [] | Some m \<Rightarrow> [m])"
  by (simp add: components_def Let_def map_logged_def filter_Boolean_map_Some
      split: option.split)

lemma components_length:
  "length (fst (components props exec acts)) =
     length (standaloneActions acts) + (if dropdownActions acts = [] then 0 else 1)"
proof (cases "dropdownActions acts = []")
  case True
  then show ?thesis by (simp add: components_elements renderDropdownMenu_none)
next
  case False
  from renderDropdownMenu_some [OF this, of props exec] show ?thesis
    using False by (auto simp: components_elements)
qed

lemma components_nil: "fst (components props exec []) = []"
  by (simp add: components_elements standaloneActions_def dropdownActions_def
      renderDropdownMenu_none)

lemma singleton_nth0: "length xs = 1 \<Longrightarrow> [xs ! 0] = xs"
  by (cases xs) auto

lemma CameraActions_elements:
  "elements_of (fst (CameraActions props exec)) =
     fst (components props exec (configured_actions (camera props)))"
  by (auto simp: CameraActions_def configured_actions_def components_nil Let_def singleton_nth0
      split: option.split)

lemma standalone_toggle_props:
  "\<exists>t. fst (standalone_toggle props exec a) = CameraFeatureToggle t
     \<and> disabled t = (\<not> cameraEnabled props \<or> exec = Some (name a))
     \<and> onClick t = Some (name a)
     \<and> title t = (if exec = Some (name a) then ''Executing '' @ name a @ ''...'' else name a)
     \<and> Icon t = fst (getActionIcon (icon a))
     \<and> isActive t = (exec = Some (name a))"
  by (simp add: standalone_toggle_def Let_def)

lemma dropdown_item_props:
  "item_key (fst (dropdown_item en exec a)) = name a
   \<and> item_disabled (fst (dropdown_item en exec a)) = (\<not> en \<or> exec = Some (name a))
   \<and> onSelect (fst (dropdown_item en exec a))
       = (if \<not> en \<or> exec = Some (name a) then None else Some (name a))
   \<and> item_label (fst (dropdown_item en exec a))
       = (if exec = Some (name a) then ''Executing '' @ name a @ ''...'' else name a)
   \<and> item_icon (fst (dropdown_item en exec a)) = fst (getActionIcon (icon a))"
  by (simp add: dropdown_item_def Let_def)

lemma toggles_of_toggles:
  "list_all2 (\<lambda>a t. fst (standalone_toggle props exec a) = CameraFeatureToggle t) xs
     (toggles_of (map (\<lambda>a. fst (standalone_toggle props exec a)) xs))"
proof (induction xs)
  case Nil
  show ?case by simp
next
  case (Cons a xs)
  obtain t where "fst (standalone_toggle props exec a) = CameraFeatureToggle t"
    using standalone_toggle_props by blast
  with Cons show ?case by simp
qed

lemma menus_of_toggles: "menus_of (map (\<lambda>a. fst (standalone_toggle props exec a)) xs) = []"
proof (induction xs)
  case Nil
  show ?case by simp
next
  case (Cons a xs)
  obtain t where "fst (standalone_toggle props exec a) = CameraFeatureToggle t"
    using standalone_toggle_props by blast
  with Cons show ?case by simp
qed

lemma components_toggles:
  "list_all2 (\<lambda>a t. fst (standalone_toggle props exec a) = CameraFeatureToggle t)
     (standaloneActions acts) (toggles_of (fst (components props exec acts)))"
proof (cases "dropdownActions acts = []")
  case True
  then show ?thesis
    by (simp add: components_elements renderDropdownMenu_none toggles_of_toggles)
next
  case False
  from renderDropdownMenu_some [OF this, of props exec] show ?thesis
    by (auto simp: components_elements toggles_of_append toggles_of_toggles)
qed

lemma components_no_menu:
  "dropdownActions acts = [] \<Longrightarrow> menus_of (fst (components props exec acts)) = []"
  by (simp add: components_elements renderDropdownMenu_none menus_of_toggles)

lemma components_menu:
  assumes "dropdownActions acts \<noteq> []"
  shows "\<exists>m. menus_of (fst (components props exec acts)) = [m]
     \<and> fst (components props exec acts)
         = map (\<lambda>a. fst (standalone_toggle props exec a)) (standaloneActions acts) @ [DropdownMenu m]
     \<and> menu_items m = map (\<lambda>a. fst (dropdown_item (cameraEnabled props) exec a)) (dropdownActions acts)
     \<and> trigger_icon m = FaPlay"
  using renderDropdownMenu_some [OF assms, of props exec]
  by (auto simp: components_elements menus_of_append menus_of_toggles)

lemma components_menu_items:
  "concat (map menu_items (menus_of (fst (components props exec acts))))
     = map (\<lambda>a. fst (dropdown_item (cameraEnabled props) exec a)) (dropdownActions acts)"
proof (cases "dropdownActions acts = []")
  case True
  then show ?thesis by (simp add: components_no_menu)
next
  case False
  from components_menu [OF this, of props exec] show ?thesis by auto
qed

lemma list_all2_map_same: "list_all2 P xs (map f xs) = (\<forall>x \<in> set xs. P x (f x))"
  by (induction xs) auto

lemma list_all2_all_right:
  "list_all2 P xs ys \<Longrightarrow> (\<And>x y. P x y \<Longrightarrow> Q y) \<Longrightarrow> \<forall>y \<in> set ys. Q y"
  by (induction rule: list_all2_induct) auto

lemma CameraActions_single:
  assumes "length (fst (components props exec (configured_actions (camera props)))) = 1"
  shows "fst (CameraActions props exec)
    = Single (fst (components props exec (configured_actions (camera props))) ! 0)"
proof -
  from assms have "configured_actions (camera props) \<noteq> []"
    using components_nil [of props exec] by auto
  with assms show ?thesis
    by (auto simp: CameraActions_def configured_actions_def Let_def split: option.splits)
qed

lemma CameraActions_many:
  assumes "2 \<le> length (fst (components props exec (configured_actions (camera props))))"
  shows "fst (CameraActions props exec)
    = Many (fst (components props exec (configured_actions (camera props))))"
proof -
  from assms have "configured_actions (camera props) \<noteq> []"
    using components_nil [of props exec] by auto
  with assms show ?thesis
    by (auto simp: CameraActions_def configured_actions_def Let_def split: option.splits)
qed

text \<open>
  C3. The two buckets split the action list: the standalone bucket holds exactly the
  actions whose \<open>standalone\<close> flag is set and the grouped bucket exactly the others;
  their lengths add up to the length of the list; each bucket is a subsequence of the
  list, so it keeps the order of the input; and as multisets the buckets add up to the
  list, so every occurrence of an action, same-named ones included, lands in one bucket
  exactly once.
\<close>

theorem partition_stable:
  "set (standaloneActions acts) = {a \<in> set acts. standalone a}
   \<and> set (dropdownActions acts) = {a \<in> set acts. \<not> standalone a}
   \<and> length (standaloneActions acts) + length (dropdownActions acts) = length acts
   \<and> subseq (standaloneActions acts) acts
   \<and> subseq (dropdownActions acts) acts
   \<and> mset (standaloneActions acts) + mset (dropdownActions acts) = mset acts"
proof -
  have "mset (standaloneActions acts) + mset (dropdownActions acts) = mset acts"
    by (simp add: standaloneActions_def dropdownActions_def)
  moreover have "subseq (standaloneActions acts) acts" "subseq (dropdownActions acts) acts"
    by (simp_all add: standaloneActions_def dropdownActions_def)
  moreover have "set (standaloneActions acts) = {a \<in> set acts. standalone a}"
    "set (dropdownActions acts) = {a \<in> set acts. \<not> standalone a}"
    by (simp_all add: standaloneActions_def dropdownActions_def)
  ultimately show ?thesis
    using partition_lengths [of acts] by simp
qed

text \<open>
  C8. When the camera has no action configuration, or the configuration has no action
  list, or the list is empty, the component returns \<^verbatim>\<open>null\<close> and has no effect at
  all: no console output, no notification, no request, no state write. It returns
  \<^verbatim>\<open>null\<close> in these cases only.
\<close>

theorem CameraActions_no_actions:
  "(camera_actions (camera props) = None
      \<or> (\<exists>cfg. camera_actions (camera props) = Some cfg
            \<and> (actions cfg = None \<or> actions cfg = Some [])) \<longrightarrow>
      CameraActions props exec = (Null, []))
   \<and> (fst (CameraActions props exec) = Null) = (configured_actions (camera props) = [])"
proof -
  have quiet: "CameraActions props exec = (Null, [])"
    if "camera_actions (camera props) = None
      \<or> (\<exists>cfg. camera_actions (camera props) = Some cfg
            \<and> (actions cfg = None \<or> actions cfg = Some []))"
    using that by (auto simp: CameraActions_def)
  have "(fst (CameraActions props exec) = Null) = (configured_actions (camera props) = [])"
    by (auto simp: CameraActions_def configured_actions_def Let_def split: option.split)
  with quiet show ?thesis by blast
qed

text \<open>C8 at a camera without configuration, without a list, and with an empty list.\<close>

theorem CameraActions_no_actions_witness:
  "CameraActions
     \<lparr>camera = \<lparr>camera_name = ''front'', camera_actions = None\<rparr>,
      fullscreen = False, cameraEnabled = True\<rparr> None = (Null, [])
   \<and> CameraActions
     \<lparr>camera = \<lparr>camera_name = ''front'', camera_actions = Some \<lparr>actions = None\<rparr>\<rparr>,
      fullscreen = True, cameraEnabled = False\<rparr> (Some ''A'') = (Null, [])
   \<and> CameraActions
     \<lparr>camera = \<lparr>camera_name = ''front'', camera_actions = Some \<lparr>actions = Some []\<rparr>\<rparr>,
      fullscreen = False, cameraEnabled = True\<rparr> None = (Null, [])"
  using
    CameraActions_no_actions [of
      "\<lparr>camera = \<lparr>camera_name = ''front'', camera_actions = None\<rparr>,
        fullscreen = False, cameraEnabled = True\<rparr>" None]
    CameraActions_no_actions [of
      "\<lparr>camera = \<lparr>camera_name = ''front'', camera_actions = Some \<lparr>actions = None\<rparr>\<rparr>,
        fullscreen = True, cameraEnabled = False\<rparr>" "Some ''A''"]
    CameraActions_no_actions [of
      "\<lparr>camera = \<lparr>camera_name = ''front'', camera_actions = Some \<lparr>actions = Some []\<rparr>\<rparr>,
        fullscreen = False, cameraEnabled = True\<rparr>" None]
  by simp

text \<open>
  C6. The array \<^verbatim>\<open>components\<close> holds one element per standalone action and one more
  when there are grouped actions. When it holds exactly one element the component
  returns that element itself; when it holds two or more it returns the array. A
  camera with exactly one action gets the single element.
\<close>

theorem CameraActions_single_or_many:
  fixes props exec
  defines "acts \<equiv> configured_actions (camera props)"
  defines "cs \<equiv> fst (components props exec (configured_actions (camera props)))"
  shows "length cs = length (standaloneActions acts) + (if dropdownActions acts = [] then 0 else 1)
    \<and> (length cs = 1 \<longrightarrow> fst (CameraActions props exec) = Single (cs ! 0))
    \<and> (2 \<le> length cs \<longrightarrow> fst (CameraActions props exec) = Many cs)
    \<and> (length acts = 1 \<longrightarrow> fst (CameraActions props exec) = Single (cs ! 0))"
proof -
  have len: "length cs = length (standaloneActions acts) + (if dropdownActions acts = [] then 0 else 1)"
    unfolding cs_def acts_def by (rule components_length)
  have one: "fst (CameraActions props exec) = Single (cs ! 0)" if "length cs = 1"
    using that unfolding cs_def by (rule CameraActions_single)
  have many: "fst (CameraActions props exec) = Many cs" if "2 \<le> length cs"
    using that unfolding cs_def by (rule CameraActions_many)
  have "length cs = 1" if "length acts = 1"
  proof -
    from that partition_lengths [of acts]
    have "length (standaloneActions acts) + length (dropdownActions acts) = 1" by simp
    then show ?thesis unfolding len by (cases "dropdownActions acts") auto
  qed
  with len one many show ?thesis by blast
qed

text \<open>
  C6 at one standalone action (the toggle itself), at two grouped actions (one menu, so
  again the element itself), and at two standalone actions (the array).
\<close>

theorem CameraActions_single_or_many_witness:
  "fst (CameraActions
     \<lparr>camera = \<lparr>camera_name = ''front'', camera_actions = Some \<lparr>actions = Some
        [\<lparr>name = ''light'', icon = None, standalone = True\<rparr>]\<rparr>\<rparr>,
      fullscreen = False, cameraEnabled = True\<rparr> None)
   = Single (CameraFeatureToggle
       \<lparr>className = [Some ''p-2 md:p-0'', None], variant = ''primary'', Icon = FaPlay,
        isActive = False, title = ''light'', onClick = Some ''light'', disabled = False\<rparr>)
   \<and> fst (CameraActions
     \<lparr>camera = \<lparr>camera_name = ''front'', camera_actions = Some \<lparr>actions = Some
        [\<lparr>name = ''light'', icon = None, standalone = False\<rparr>,
         \<lparr>name = ''siren'', icon = None, standalone = False\<rparr>]\<rparr>\<rparr>,
      fullscreen = False, cameraEnabled = True\<rparr> None)
   = Single (DropdownMenu
       \<lparr>menu_key = ''dropdown-menu'',
        trigger_className =
          [Some ''flex flex-col items-center justify-center rounded-lg bg-secondary p-2 text-secondary-foreground md:p-0'',
           None],
        trigger_icon = FaPlay,
        menu_items =
          [\<lparr>item_key = ''light'',
            item_className = [Some ''cursor-pointer flex items-center gap-2'', None, None],
            item_disabled = False, onSelect = Some ''light'', item_icon = FaPlay,
            item_label = ''light''\<rparr>,
           \<lparr>item_key = ''siren'',
            item_className = [Some ''cursor-pointer flex items-center gap-2'', None, None],
            item_disabled = False, onSelect = Some ''siren'', item_icon = FaPlay,
            item_label = ''siren''\<rparr>]\<rparr>)
   \<and> fst (CameraActions
     \<lparr>camera = \<lparr>camera_name = ''front'', camera_actions = Some \<lparr>actions = Some
        [\<lparr>name = ''light'', icon = None, standalone = True\<rparr>,
         \<lparr>name = ''siren'', icon = None, standalone = True\<rparr>]\<rparr>\<rparr>,
      fullscreen = False, cameraEnabled = True\<rparr> None)
   = Many
      [CameraFeatureToggle
         \<lparr>className = [Some ''p-2 md:p-0'', None], variant = ''primary'', Icon = FaPlay,
          isActive = False, title = ''light'', onClick = Some ''light'', disabled = False\<rparr>,
       CameraFeatureToggle
         \<lparr>className = [Some ''p-2 md:p-0'', None], variant = ''primary'', Icon = FaPlay,
          isActive = False, title = ''siren'', onClick = Some ''siren'', disabled = False\<rparr>]"
proof -
  let ?one = "\<lparr>camera = \<lparr>camera_name = ''front'', camera_actions = Some \<lparr>actions = Some
        [\<lparr>name = ''light'', icon = None, standalone = True\<rparr>]\<rparr>\<rparr>,
      fullscreen = False, cameraEnabled = True\<rparr>"
  let ?two = "\<lparr>camera = \<lparr>camera_name = ''front'', camera_actions = Some \<lparr>actions = Some
        [\<lparr>name = ''light'', icon = None, standalone = True\<rparr>,
         \<lparr>name = ''siren'', icon = None, standalone = True\<rparr>]\<rparr>\<rparr>,
      fullscreen = False, cameraEnabled = True\<rparr>"
  let ?grp = "\<lparr>camera = \<lparr>camera_name = ''front'', camera_actions = Some \<lparr>actions = Some
        [\<lparr>name = ''light'', icon = None, standalone = False\<rparr>,
         \<lparr>name = ''siren'', icon = None, standalone = False\<rparr>]\<rparr>\<rparr>,
      fullscreen = False, cameraEnabled = True\<rparr>"
  have c0: "fst (components ?grp None (configured_actions (camera ?grp)))
    = [DropdownMenu
       \<lparr>menu_key = ''dropdown-menu'',
        trigger_className =
          [Some ''flex flex-col items-center justify-center rounded-lg bg-secondary p-2 text-secondary-foreground md:p-0'',
           None],
        trigger_icon = FaPlay,
        menu_items =
          [\<lparr>item_key = ''light'',
            item_className = [Some ''cursor-pointer flex items-center gap-2'', None, None],
            item_disabled = False, onSelect = Some ''light'', item_icon = FaPlay,
            item_label = ''light''\<rparr>,
           \<lparr>item_key = ''siren'',
            item_className = [Some ''cursor-pointer flex items-center gap-2'', None, None],
            item_disabled = False, onSelect = Some ''siren'', item_icon = FaPlay,
            item_label = ''siren''\<rparr>]\<rparr>]"
    by (simp add: components_def map_logged_def dropdown_item_def renderDropdownMenu_def
        standaloneActions_def dropdownActions_def configured_actions_def getActionIcon_def)
  have c1: "fst (components ?one None (configured_actions (camera ?one)))
    = [CameraFeatureToggle
       \<lparr>className = [Some ''p-2 md:p-0'', None], variant = ''primary'', Icon = FaPlay,
        isActive = False, title = ''light'', onClick = Some ''light'', disabled = False\<rparr>]"
    by (simp add: components_def map_logged_def standalone_toggle_def renderDropdownMenu_def
        standaloneActions_def dropdownActions_def configured_actions_def getActionIcon_def)
  have c2: "fst (components ?two None (configured_actions (camera ?two)))
    = [CameraFeatureToggle
         \<lparr>className = [Some ''p-2 md:p-0'', None], variant = ''primary'', Icon = FaPlay,
          isActive = False, title = ''light'', onClick = Some ''light'', disabled = False\<rparr>,
       CameraFeatureToggle
         \<lparr>className = [Some ''p-2 md:p-0'', None], variant = ''primary'', Icon = FaPlay,
          isActive = False, title = ''siren'', onClick = Some ''siren'', disabled = False\<rparr>]"
    by (simp add: components_def map_logged_def standalone_toggle_def renderDropdownMenu_def
        standaloneActions_def dropdownActions_def configured_actions_def getActionIcon_def)
  from CameraActions_single_or_many [of ?one None] CameraActions_single_or_many [of ?grp None]
    CameraActions_single_or_many [of ?two None]
  show ?thesis unfolding c0 c1 c2 by simp
qed

text \<open>
  C5. When there are grouped actions, what the component returns is the toggles of the
  standalone actions followed by exactly one menu; the menu has one item per grouped
  action, in order, and each item has the label, icon and disabled flag that a toggle
  for the same action has, and its handler triggers what that toggle's handler
  triggers unless the control is disabled. When there are no grouped actions there is
  no menu. For the two actions \<^verbatim>\<open>{name: "A", standalone: true}\<close> and
  \<^verbatim>\<open>{name: "B", standalone: false}\<close> the component returns an array of one toggle for
  \<^verbatim>\<open>A\<close> and one menu whose only item is \<^verbatim>\<open>B\<close>.
\<close>

theorem grouped_menu:
  fixes props exec
  defines "acts \<equiv> configured_actions (camera props)"
  defines "els \<equiv> elements_of (fst (CameraActions props exec))"
  shows "(dropdownActions acts \<noteq> [] \<longrightarrow>
       (\<exists>m. menus_of els = [m]
          \<and> els = map (\<lambda>a. fst (standalone_toggle props exec a)) (standaloneActions acts)
                  @ [DropdownMenu m]
          \<and> trigger_icon m = FaPlay
          \<and> list_all2
              (\<lambda>a i. \<exists>t. fst (standalone_toggle props exec a) = CameraFeatureToggle t
                 \<and> item_key i = name a
                 \<and> item_label i = title t
                 \<and> item_icon i = Icon t
                 \<and> item_disabled i = disabled t
                 \<and> onSelect i = (if disabled t then None else onClick t))
              (dropdownActions acts) (menu_items m)))
    \<and> (dropdownActions acts = [] \<longrightarrow>
         menus_of els = []
         \<and> els = map (\<lambda>a. fst (standalone_toggle props exec a)) (standaloneActions acts))
    \<and> (acts = [\<lparr>name = ''A'', icon = ia, standalone = True\<rparr>,
                \<lparr>name = ''B'', icon = ib, standalone = False\<rparr>] \<longrightarrow>
         (\<exists>t m i. fst (CameraActions props exec) = Many [CameraFeatureToggle t, DropdownMenu m]
            \<and> onClick t = Some ''A'' \<and> menu_items m = [i] \<and> item_key i = ''B''))"
proof -
  have els: "els = fst (components props exec acts)"
    unfolding els_def acts_def by (rule CameraActions_elements)
  have menu: "\<exists>m. menus_of els = [m]
          \<and> els = map (\<lambda>a. fst (standalone_toggle props exec a)) (standaloneActions acts)
                  @ [DropdownMenu m]
          \<and> trigger_icon m = FaPlay
          \<and> list_all2
              (\<lambda>a i. \<exists>t. fst (standalone_toggle props exec a) = CameraFeatureToggle t
                 \<and> item_key i = name a
                 \<and> item_label i = title t
                 \<and> item_icon i = Icon t
                 \<and> item_disabled i = disabled t
                 \<and> onSelect i = (if disabled t then None else onClick t))
              (dropdownActions acts) (menu_items m)"
    if "dropdownActions acts \<noteq> []"
  proof -
    from components_menu [OF that, of props exec] obtain m where m:
      "menus_of els = [m]"
      "els = map (\<lambda>a. fst (standalone_toggle props exec a)) (standaloneActions acts)
             @ [DropdownMenu m]"
      "menu_items m = map (\<lambda>a. fst (dropdown_item (cameraEnabled props) exec a)) (dropdownActions acts)"
      "trigger_icon m = FaPlay"
      unfolding els by blast
    have "list_all2
        (\<lambda>a i. \<exists>t. fst (standalone_toggle props exec a) = CameraFeatureToggle t
           \<and> item_key i = name a
           \<and> item_label i = title t
           \<and> item_icon i = Icon t
           \<and> item_disabled i = disabled t
           \<and> onSelect i = (if disabled t then None else onClick t))
        (dropdownActions acts) (menu_items m)"
      unfolding m(3) list_all2_map_same
    proof
      fix a
      assume "a \<in> set (dropdownActions acts)"
      from standalone_toggle_props [of props exec a] obtain t where
        "fst (standalone_toggle props exec a) = CameraFeatureToggle t"
        "disabled t = (\<not> cameraEnabled props \<or> exec = Some (name a))"
        "onClick t = Some (name a)"
        "title t = (if exec = Some (name a) then ''Executing '' @ name a @ ''...'' else name a)"
        "Icon t = fst (getActionIcon (icon a))"
        by blast
      then show "\<exists>t. fst (standalone_toggle props exec a) = CameraFeatureToggle t
           \<and> item_key (fst (dropdown_item (cameraEnabled props) exec a)) = name a
           \<and> item_label (fst (dropdown_item (cameraEnabled props) exec a)) = title t
           \<and> item_icon (fst (dropdown_item (cameraEnabled props) exec a)) = Icon t
           \<and> item_disabled (fst (dropdown_item (cameraEnabled props) exec a)) = disabled t
           \<and> onSelect (fst (dropdown_item (cameraEnabled props) exec a))
               = (if disabled t then None else onClick t)"
        using dropdown_item_props [of "cameraEnabled props" exec a] by simp
    qed
    with m show ?thesis by blast
  qed
  have no_menu: "menus_of els = []
      \<and> els = map (\<lambda>a. fst (standalone_toggle props exec a)) (standaloneActions acts)"
    if "dropdownActions acts = []"
    using that unfolding els
    by (simp add: components_no_menu) (simp add: components_elements renderDropdownMenu_none)
  have example: "\<exists>t m i. fst (CameraActions props exec) = Many [CameraFeatureToggle t, DropdownMenu m]
            \<and> onClick t = Some ''A'' \<and> menu_items m = [i] \<and> item_key i = ''B''"
    if ab: "acts = [\<lparr>name = ''A'', icon = ia, standalone = True\<rparr>,
                \<lparr>name = ''B'', icon = ib, standalone = False\<rparr>]"
  proof -
    let ?A = "\<lparr>name = ''A'', icon = ia, standalone = True\<rparr>"
    let ?B = "\<lparr>name = ''B'', icon = ib, standalone = False\<rparr>"
    have sa: "standaloneActions acts = [?A]" and da: "dropdownActions acts = [?B]"
      by (simp_all add: ab standaloneActions_def dropdownActions_def)
    from da have "dropdownActions acts \<noteq> []" by simp
    from components_menu [OF this, of props exec] obtain m where m:
      "fst (components props exec acts) = [fst (standalone_toggle props exec ?A), DropdownMenu m]"
      "menu_items m = [fst (dropdown_item (cameraEnabled props) exec ?B)]"
      unfolding sa da by auto
    from standalone_toggle_props [of props exec ?A] obtain t where t:
      "fst (standalone_toggle props exec ?A) = CameraFeatureToggle t" "onClick t = Some ''A''"
      by auto
    have "2 \<le> length (fst (components props exec (configured_actions (camera props))))"
      using m(1) unfolding acts_def by simp
    from CameraActions_many [OF this]
    have "fst (CameraActions props exec) = Many [CameraFeatureToggle t, DropdownMenu m]"
      using m(1) t(1) unfolding acts_def by simp
    moreover have "item_key (fst (dropdown_item (cameraEnabled props) exec ?B)) = ''B''"
      using dropdown_item_props [of "cameraEnabled props" exec ?B] by simp
    ultimately show ?thesis using m(2) t(2) by blast
  qed
  from menu no_menu example show ?thesis by blast
qed

text \<open>C5 at the two actions \<^verbatim>\<open>A\<close> (standalone) and \<^verbatim>\<open>B\<close> (grouped), camera enabled, idle.\<close>

theorem grouped_menu_witness:
  "dropdownActions
     [\<lparr>name = ''A'', icon = None, standalone = True\<rparr>,
      \<lparr>name = ''B'', icon = None, standalone = False\<rparr>] \<noteq> []
   \<and> fst (CameraActions
     \<lparr>camera = \<lparr>camera_name = ''front'', camera_actions = Some \<lparr>actions = Some
        [\<lparr>name = ''A'', icon = None, standalone = True\<rparr>,
         \<lparr>name = ''B'', icon = None, standalone = False\<rparr>]\<rparr>\<rparr>,
      fullscreen = False, cameraEnabled = True\<rparr> None)
   = Many
      [CameraFeatureToggle
         \<lparr>className = [Some ''p-2 md:p-0'', None], variant = ''primary'', Icon = FaPlay,
          isActive = False, title = ''A'', onClick = Some ''A'', disabled = False\<rparr>,
       DropdownMenu
         \<lparr>menu_key = ''dropdown-menu'',
          trigger_className =
            [Some ''flex flex-col items-center justify-center rounded-lg bg-secondary p-2 text-secondary-foreground md:p-0'',
             None],
          trigger_icon = FaPlay,
          menu_items =
            [\<lparr>item_key = ''B'',
              item_className = [Some ''cursor-pointer flex items-center gap-2'', None, None],
              item_disabled = False, onSelect = Some ''B'', item_icon = FaPlay,
              item_label = ''B''\<rparr>]\<rparr>]"
  using
    grouped_menu [of
      "\<lparr>camera = \<lparr>camera_name = ''front'', camera_actions = Some \<lparr>actions = Some
        [\<lparr>name = ''A'', icon = None, standalone = True\<rparr>,
         \<lparr>name = ''B'', icon = None, standalone = False\<rparr>]\<rparr>\<rparr>,
      fullscreen = False, cameraEnabled = True\<rparr>" None None None]
  by (simp add: CameraActions_def components_def map_logged_def standalone_toggle_def
      renderDropdownMenu_def dropdown_item_def standaloneActions_def dropdownActions_def
      configured_actions_def getActionIcon_def)

text \<open>
  C7. In what the component returns, the toggles correspond one to one, in order, to the
  standalone actions, and the items of the menu to the grouped actions. The control of
  an action is disabled exactly when the camera is not enabled or the state cell holds
  that action's name; a toggle's handler triggers that action, and a menu item's
  handler triggers it only when the item is not disabled. With the camera not enabled
  every toggle and every menu item is disabled, whatever the state cell holds, and no
  menu item's handler triggers anything.
\<close>

theorem controls_disabled:
  fixes props exec
  defines "acts \<equiv> configured_actions (camera props)"
  defines "els \<equiv> elements_of (fst (CameraActions props exec))"
  shows "list_all2
      (\<lambda>a t. onClick t = Some (name a)
         \<and> disabled t = (\<not> cameraEnabled props \<or> exec = Some (name a)))
      (standaloneActions acts) (toggles_of els)
    \<and> list_all2
      (\<lambda>a i. item_key i = name a
         \<and> item_disabled i = (\<not> cameraEnabled props \<or> exec = Some (name a))
         \<and> onSelect i = (if item_disabled i then None else Some (name a)))
      (dropdownActions acts) (concat (map menu_items (menus_of els)))
    \<and> (\<not> cameraEnabled props \<longrightarrow>
         (\<forall>t \<in> set (toggles_of els). disabled t)
         \<and> (\<forall>i \<in> set (concat (map menu_items (menus_of els))).
               item_disabled i \<and> onSelect i = None))"
proof -
  have els: "els = fst (components props exec acts)"
    unfolding els_def acts_def by (rule CameraActions_elements)
  have toggles: "list_all2
      (\<lambda>a t. onClick t = Some (name a)
         \<and> disabled t = (\<not> cameraEnabled props \<or> exec = Some (name a)))
      (standaloneActions acts) (toggles_of els)"
    unfolding els
  proof (rule list_all2_mono [OF components_toggles])
    fix a t
    assume "fst (standalone_toggle props exec a) = CameraFeatureToggle t"
    with standalone_toggle_props [of props exec a]
    show "onClick t = Some (name a)
      \<and> disabled t = (\<not> cameraEnabled props \<or> exec = Some (name a))"
      by auto
  qed
  have items: "list_all2
      (\<lambda>a i. item_key i = name a
         \<and> item_disabled i = (\<not> cameraEnabled props \<or> exec = Some (name a))
         \<and> onSelect i = (if item_disabled i then None else Some (name a)))
      (dropdownActions acts) (concat (map menu_items (menus_of els)))"
    unfolding els components_menu_items list_all2_map_same
    by (simp add: dropdown_item_props)
  have off_toggles: "\<forall>t \<in> set (toggles_of els). disabled t" if "\<not> cameraEnabled props"
    by (rule list_all2_all_right [OF toggles]) (simp add: that)
  have off_items: "\<forall>i \<in> set (concat (map menu_items (menus_of els))).
      item_disabled i \<and> onSelect i = None" if "\<not> cameraEnabled props"
    by (rule list_all2_all_right [OF items]) (simp add: that)
  from toggles items off_toggles off_items show ?thesis by blast
qed

text \<open>
  C7 at a camera that is not enabled (both controls disabled, the item's handler does
  nothing), and at an enabled camera while \<^verbatim>\<open>A\<close> is executing (only \<^verbatim>\<open>A\<close> is
  disabled, the item for \<^verbatim>\<open>B\<close> triggers \<^verbatim>\<open>B\<close>).
\<close>

theorem controls_disabled_witness:
  "map disabled (toggles_of (elements_of (fst (CameraActions
     \<lparr>camera = \<lparr>camera_name = ''front'', camera_actions = Some \<lparr>actions = Some
        [\<lparr>name = ''A'', icon = None, standalone = True\<rparr>,
         \<lparr>name = ''B'', icon = None, standalone = False\<rparr>]\<rparr>\<rparr>,
      fullscreen = False, cameraEnabled = False\<rparr> None)))) = [True]
   \<and> map onSelect (concat (map menu_items (menus_of (elements_of (fst (CameraActions
     \<lparr>camera = \<lparr>camera_name = ''front'', camera_actions = Some \<lparr>actions = Some
        [\<lparr>name = ''A'', icon = None, standalone = True\<rparr>,
         \<lparr>name = ''B'', icon = None, standalone = False\<rparr>]\<rparr>\<rparr>,
      fullscreen = False, cameraEnabled = False\<rparr> None)))))) = [None]
   \<and> map disabled (toggles_of (elements_of (fst (CameraActions
     \<lparr>camera = \<lparr>camera_name = ''front'', camera_actions = Some \<lparr>actions = Some
        [\<lparr>name = ''A'', icon = None, standalone = True\<rparr>,
         \<lparr>name = ''B'', icon = None, standalone = False\<rparr>]\<rparr>\<rparr>,
      fullscreen = False, cameraEnabled = True\<rparr> (Some ''A''))))) = [True]
   \<and> map onSelect (concat (map menu_items (menus_of (elements_of (fst (CameraActions
     \<lparr>camera = \<lparr>camera_name = ''front'', camera_actions = Some \<lparr>actions = Some
        [\<lparr>name = ''A'', icon = None, standalone = True\<rparr>,
         \<lparr>name = ''B'', icon = None, standalone = False\<rparr>]\<rparr>\<rparr>,
      fullscreen = False, cameraEnabled = True\<rparr> (Some ''A''))))))) = [Some ''B'']"
  using
    controls_disabled [of
      "\<lparr>camera = \<lparr>camera_name = ''front'', camera_actions = Some \<lparr>actions = Some
        [\<lparr>name = ''A'', icon = None, standalone = True\<rparr>,
         \<lparr>name = ''B'', icon = None, standalone = False\<rparr>]\<rparr>\<rparr>,
      fullscreen = False, cameraEnabled = False\<rparr>" None]
    controls_disabled [of
      "\<lparr>camera = \<lparr>camera_name = ''front'', camera_actions = Some \<lparr>actions = Some
        [\<lparr>name = ''A'', icon = None, standalone = True\<rparr>,
         \<lparr>name = ''B'', icon = None, standalone = False\<rparr>]\<rparr>\<rparr>,
      fullscreen = False, cameraEnabled = True\<rparr>" "Some ''A''"]
  by (auto simp: configured_actions_def standaloneActions_def dropdownActions_def
      list_all2_Cons1)

end
